theory Spec2Isabelle
  imports Main "HOL-Library.AList" "HOL-Library.Sublist"
begin

section \<open>The blood bank ledger: document store, inventory, transaction flows\<close>

text \<open>
  The two source files (the console program and the form-based program) share the
  classes \<open>Database\<close> and \<open>Inventory\<close> line for line. They are embedded once.
  Python's \<open>int\<close> is unbounded and is modelled by \<open>int\<close>; \<open>str\<close> by \<open>string\<close>.
  An exception is a value \<open>Inl e\<close> of the result type; mutation of the \<open>Database\<close>
  object and of the file at its path is explicit state passing. Failures of the file
  system itself (permissions, a full disk) are not modelled.
\<close>

subsection \<open>Data\<close>

datatype error = TypeError | KeyError | AttributeError | UnicodeDecodeError

text \<open>
  A donation or request record is a Python dict literal with string keys, whose
  values are strings and integers: an association list in the literal's key order.
\<close>

datatype field = Text string | Number int

type_synonym rec = "(string \<times> field) list"

text \<open>
  \<open>self.data\<close>, annotated \<open>Dict[str, Any]\<close>. Each of the four top-level keys may be
  absent (\<open>None\<close>). The inventory is the \<open>Dict[str, int]\<close> of \<open>_get_inventory\<close>, kept
  as an association list in insertion order. Other top-level keys, and values of
  other shapes under the four keys, are outside the model.
\<close>

record document =
  inventory :: "(string \<times> int) list option"
  donors :: "rec list option"
  patients :: "rec list option"
  logs :: "string list option"

text \<open>
  What \<open>json.load\<close> can return: \<open>self.data\<close> holds such a value after \<open>load\<close>.
  A float carries no payload, since only its type matters to the code modelled.
\<close>

datatype json = JNull | JBool bool | JInt int | JFloat | JStr string
  | JList "json list" | JDict document

text \<open>
  The file at \<open>self.path\<close>, by what \<open>open(..., encoding="utf-8")\<close> and \<open>json.load\<close>
  do with its content: bytes that are not UTF-8 (reading raises
  \<open>UnicodeDecodeError\<close>), text that is not JSON (\<open>json.JSONDecodeError\<close>), or the
  value the text parses to.
\<close>

datatype file_content = Undecodable | Malformed | Parsed json

datatype file_state = Absent | Present file_content

record database =
  data :: json
  persisted :: file_state

definition empty_document :: document where
  "empty_document = \<lparr>inventory = None, donors = None, patients = None, logs = None\<rparr>"

definition default_inventory :: "(string \<times> int) list" where
  "default_inventory =
     [(''A+'', 2000), (''A-'', 2000), (''B+'', 2000), (''B-'', 2000),
      (''AB+'', 2000), (''AB-'', 2000), (''O+'', 2000), (''O-'', 2000)]"

definition VALID_TYPES :: "string set" where
  "VALID_TYPES = {''A+'', ''A-'', ''B+'', ''B-'', ''AB+'', ''AB-'', ''O+'', ''O-''}"

definition and_then :: "error + 'a \<Rightarrow> ('a \<Rightarrow> error + 'b) \<Rightarrow> error + 'b" where
  "and_then r f = (case r of Inl e \<Rightarrow> Inl e | Inr x \<Rightarrow> f x)"

subsection \<open>Rendering integers\<close>

text \<open>\<open>str(n)\<close> and the f-string \<open>{n}\<close> for an \<open>int\<close>: decimal digits, a leading minus.\<close>

definition digit_char :: "nat \<Rightarrow> char" where
  "digit_char d = ''0123456789'' ! d"

function str_nat :: "nat \<Rightarrow> string" where
  "str_nat n = (if n < 10 then [digit_char n] else str_nat (n div 10) @ [digit_char (n mod 10)])"
  by pat_completeness auto
termination
  by (relation "measure (\<lambda>n. n)") auto

declare str_nat.simps [simp del]

definition str_int :: "int \<Rightarrow> string" where
  "str_int i = (if i < 0 then CHR ''-'' # str_nat (nat (- i)) else str_nat (nat i))"

text \<open>The format specifications \<open>04d\<close> and \<open>02d\<close>: zeros after the sign up to the width.\<close>

definition fmt_0d :: "nat \<Rightarrow> int \<Rightarrow> string" where
  "fmt_0d w i =
     (let ds = str_nat (nat \<bar>i\<bar>)
      in if i < 0 then CHR ''-'' # replicate (w - 1 - length ds) CHR ''0'' @ ds
         else replicate (w - length ds) CHR ''0'' @ ds)"

subsection \<open>Database\<close>

text \<open>\<open>k in self.data\<close>: key of a dict, element of a list, substring of a string.\<close>

definition has_key :: "document \<Rightarrow> string \<Rightarrow> bool" where
  "has_key d k =
     (k = ''inventory'' \<and> inventory d \<noteq> None \<or> k = ''donors'' \<and> donors d \<noteq> None \<or>
      k = ''patients'' \<and> patients d \<noteq> None \<or> k = ''logs'' \<and> logs d \<noteq> None)"

definition py_in :: "string \<Rightarrow> json \<Rightarrow> error + bool" where
  "py_in k v =
     (case v of
        JDict d \<Rightarrow> Inr (has_key d k)
      | JList xs \<Rightarrow> Inr (JStr k \<in> set xs)
      | JStr s \<Rightarrow> Inr (sublist k s)
      | _ \<Rightarrow> Inl TypeError)"

text \<open>
  One \<open>if k not in self.data: self.data[k] = default; changed = True\<close>. Item
  assignment with a string key raises \<open>TypeError\<close> on everything but a dict.
\<close>

definition ensure_key :: "string \<Rightarrow> (document \<Rightarrow> document) \<Rightarrow> json \<times> bool \<Rightarrow> error + json \<times> bool" where
  "ensure_key k fill s =
     and_then (py_in k (fst s)) (\<lambda>present.
       if present then Inr s
       else (case fst s of JDict d \<Rightarrow> Inr (JDict (fill d), True) | _ \<Rightarrow> Inl TypeError))"

definition save :: "database \<Rightarrow> database" where
  "save db = db\<lparr>persisted := Present (Parsed (data db))\<rparr>"

definition ensure_structure :: "database \<Rightarrow> error + database" where
  "ensure_structure db =
     and_then (ensure_key ''inventory'' (\<lambda>d. d\<lparr>inventory := Some default_inventory\<rparr>) (data db, False)) (\<lambda>s1.
     and_then (ensure_key ''donors'' (\<lambda>d. d\<lparr>donors := Some []\<rparr>) s1) (\<lambda>s2.
     and_then (ensure_key ''patients'' (\<lambda>d. d\<lparr>patients := Some []\<rparr>) s2) (\<lambda>s3.
     and_then (ensure_key ''logs'' (\<lambda>d. d\<lparr>logs := Some []\<rparr>) s3) (\<lambda>s4.
       Inr (if snd s4 then save (db\<lparr>data := fst s4\<rparr>) else db\<lparr>data := fst s4\<rparr>)))))"



text \<open>
  \<open>log\<close>: the timestamp \<open>datetime.now().isoformat(sep=" ", timespec="seconds")\<close> is
  the parameter \<open>now\<close>. \<open>setdefault\<close> is a dict method: anything else raises
  \<open>AttributeError\<close>.
\<close>

definition log :: "string \<Rightarrow> string \<Rightarrow> database \<Rightarrow> error + database" where
  "log now entry db =
     (case data db of
        JDict d \<Rightarrow>
          Inr (save (db\<lparr>data := JDict (d\<lparr>logs :=
                 Some ((case logs d of None \<Rightarrow> [] | Some l \<Rightarrow> l) @ [now @ '' - '' @ entry])\<rparr>)\<rparr>))
      | _ \<Rightarrow> Inl AttributeError)"

subsection \<open>Inventory\<close>

text \<open>
  \<open>_get_inventory\<close>, that is \<open>self.db.data["inventory"]\<close>: \<open>KeyError\<close> on a dict without
  the key, \<open>TypeError\<close> (a string index) on any other value.
\<close>

definition get_inventory :: "database \<Rightarrow> error + (string \<times> int) list" where
  "get_inventory db =
     (case data db of
        JDict d \<Rightarrow> (case inventory d of None \<Rightarrow> Inl KeyError | Some invt \<Rightarrow> Inr invt)
      | _ \<Rightarrow> Inl TypeError)"

text \<open>\<open>inv.get(btype, 0)\<close>.\<close>

definition get0 :: "(string \<times> int) list \<Rightarrow> string \<Rightarrow> int" where
  "get0 invt btype = (case map_of invt btype of None \<Rightarrow> 0 | Some q \<Rightarrow> q)"

definition get_amount :: "database \<Rightarrow> string \<Rightarrow> error + int" where
  "get_amount db btype = and_then (get_inventory db) (\<lambda>invt. Inr (get0 invt btype))"

text \<open>
  \<open>inv\<close> is the very dict stored under \<open>"inventory"\<close>, so \<open>inv[btype] = v\<close> changes
  \<open>self.db.data\<close>. The call is made only after \<open>get_inventory\<close> returned, that is on
  a dict.
\<close>

definition set_amount :: "string \<Rightarrow> int \<Rightarrow> database \<Rightarrow> database" where
  "set_amount btype v db =
     (case data db of
        JDict d \<Rightarrow>
          db\<lparr>data := JDict (d\<lparr>inventory :=
                map_option (AList.update btype v) (inventory d)\<rparr>)\<rparr>
      | _ \<Rightarrow> db)"

definition add_blood :: "string \<Rightarrow> string \<Rightarrow> int \<Rightarrow> database \<Rightarrow> error + bool \<times> database" where
  "add_blood now btype amount db =
     (if btype \<notin> VALID_TYPES \<or> amount \<le> 0 then Inr (False, db)
      else and_then (get_inventory db) (\<lambda>invt.
        let new = get0 invt btype + amount;
            db1 = save (set_amount btype new db)
        in and_then (log now (''Added '' @ str_int amount @ ''ml to '' @ btype @
                              '' (new: '' @ str_int new @ '' ml)'') db1)
             (\<lambda>db2. Inr (True, db2))))"

definition remove_blood :: "string \<Rightarrow> string \<Rightarrow> int \<Rightarrow> database \<Rightarrow> error + bool \<times> database" where
  "remove_blood now btype amount db =
     (if btype \<notin> VALID_TYPES \<or> amount \<le> 0 then Inr (False, db)
      else and_then (get_inventory db) (\<lambda>invt.
        let current = get0 invt btype
        in if amount > current then Inr (False, db)
           else
             let db1 = save (set_amount btype (current - amount) db)
             in and_then (log now (''Removed '' @ str_int amount @ ''ml from '' @ btype @
                                   '' (remaining: '' @ str_int (current - amount) @ '' ml)'') db1)
                  (\<lambda>db2. Inr (True, db2))))"

definition list_inventory :: "database \<Rightarrow> error + (string \<times> int) list" where
  "list_inventory db = get_inventory db"

subsection \<open>The console program: donors and patients\<close>

text \<open>
  \<open>class Staff\<close> with its subclasses \<open>Donor\<close> and \<open>Patient\<close>. The attribute \<open>salary\<close>
  (a float, never stored in the document) is left out, and so is \<open>self.db\<close>, which
  in \<open>main\<close> is the very \<open>Database\<close> the \<open>Inventory\<close> holds: the state passed along.
\<close>

record Staff =
  name :: string
  email :: string
  age :: int
  id' :: int

record Donor = Staff +
  phone :: string
  day :: int
  month :: int
  year :: int
  blood_type :: string
  donated_amount :: int

record Patient = Staff +
  phone :: string
  blood_type :: string
  required_amount :: int

text \<open>\<open>self.db.data.get(key, [])\<close>, as the reports and the history views read it.\<close>

definition get_donors :: "database \<Rightarrow> error + rec list" where
  "get_donors db =
     (case data db of
        JDict d \<Rightarrow> Inr (case donors d of None \<Rightarrow> [] | Some l \<Rightarrow> l)
      | _ \<Rightarrow> Inl AttributeError)"

definition get_patients :: "database \<Rightarrow> error + rec list" where
  "get_patients db =
     (case data db of
        JDict d \<Rightarrow> Inr (case patients d of None \<Rightarrow> [] | Some l \<Rightarrow> l)
      | _ \<Rightarrow> Inl AttributeError)"

definition get_logs :: "database \<Rightarrow> error + string list" where
  "get_logs db =
     (case data db of
        JDict d \<Rightarrow> Inr (case logs d of None \<Rightarrow> [] | Some l \<Rightarrow> l)
      | _ \<Rightarrow> Inl AttributeError)"

text \<open>\<open>self.db.data.setdefault("donors", []).append(rec)\<close>, and the same for patients.\<close>

definition append_donor :: "rec \<Rightarrow> database \<Rightarrow> error + database" where
  "append_donor r db =
     (case data db of
        JDict d \<Rightarrow>
          Inr (db\<lparr>data := JDict (d\<lparr>donors :=
                 Some ((case donors d of None \<Rightarrow> [] | Some l \<Rightarrow> l) @ [r])\<rparr>)\<rparr>)
      | _ \<Rightarrow> Inl AttributeError)"

definition append_patient :: "rec \<Rightarrow> database \<Rightarrow> error + database" where
  "append_patient r db =
     (case data db of
        JDict d \<Rightarrow>
          Inr (db\<lparr>data := JDict (d\<lparr>patients :=
                 Some ((case patients d of None \<Rightarrow> [] | Some l \<Rightarrow> l) @ [r])\<rparr>)\<rparr>)
      | _ \<Rightarrow> Inl AttributeError)"

definition donor_rec ::
  "string \<Rightarrow> string \<Rightarrow> int \<Rightarrow> int \<Rightarrow> string \<Rightarrow> int \<Rightarrow> string \<Rightarrow> int \<Rightarrow> int \<Rightarrow> int \<Rightarrow> rec" where
  "donor_rec nm em ag idn ph amount bt y m d =
     [(''name'', Text nm), (''email'', Text em), (''age'', Number ag), (''id'', Number idn),
      (''phone'', Text ph), (''donated_amount'', Number amount), (''blood_type'', Text bt),
      (''donation_date'', Text (fmt_0d 4 y @ ''-'' @ fmt_0d 2 m @ ''-'' @ fmt_0d 2 d))]"

text \<open>\<open>request_date\<close> is \<open>datetime.now().strftime("%Y-%m-%d")\<close>: the parameter \<open>today\<close>.\<close>

definition patient_rec ::
  "string \<Rightarrow> string \<Rightarrow> int \<Rightarrow> int \<Rightarrow> string \<Rightarrow> int \<Rightarrow> string \<Rightarrow> string \<Rightarrow> rec" where
  "patient_rec nm em ag idn ph amount bt today =
     [(''name'', Text nm), (''email'', Text em), (''age'', Number ag), (''id'', Number idn),
      (''phone'', Text ph), (''required_amount'', Number amount), (''blood_type'', Text bt),
      (''request_date'', Text today)]"

text \<open>
  \<open>Donor.donate\<close>; \<open>bt\<close> is the stripped input line. The method stores it in
  \<open>self.blood_type\<close> before the record is built, so the record's blood type is \<open>bt\<close>.
\<close>

definition donate :: "string \<Rightarrow> string \<Rightarrow> Donor \<Rightarrow> database \<Rightarrow> error + bool \<times> database" where
  "donate now bt self db =
     (if bt \<notin> VALID_TYPES then Inr (False, db)
      else and_then (add_blood now bt (donated_amount self) db) (\<lambda>r.
        if fst r then
          and_then (append_donor
              (donor_rec (name self) (email self) (age self) (id' self) (Donor.phone self)
                 (donated_amount self) bt (year self) (month self) (day self)) (snd r))
            (\<lambda>db2. Inr (True, save db2))
        else Inr (False, snd r)))"

text \<open>\<open>Patient.request_blood\<close>.\<close>

definition request_blood :: "string \<Rightarrow> string \<Rightarrow> Patient \<Rightarrow> database \<Rightarrow> error + bool \<times> database" where
  "request_blood now today self db =
     (let bt = Patient.blood_type self
      in and_then (remove_blood now bt (required_amount self) db) (\<lambda>r.
           if fst r then
             and_then (append_patient
                 (patient_rec (name self) (email self) (age self) (id' self) (Patient.phone self)
                    (required_amount self) bt today) (snd r))
               (\<lambda>db2. Inr (True, save db2))
           else Inr (False, snd r)))"

subsection \<open>The form-based program: the two button handlers\<close>

text \<open>
  What the page shows after the handler ran: \<open>st.success\<close> with the quantity
  \<open>get_amount\<close> reports, or one of the \<open>st.error\<close> messages. Each handler is wrapped
  in \<open>try ... except Exception as e: st.error(...)\<close>, so an exception ends as a
  message; the document is then as the raising call left it.
\<close>

datatype shown = Success int | Error_inventory | Error_insufficient int
  | Error_required_fields | Error_exception error

text \<open>The handler of the button "Complete Donation".\<close>

definition complete_donation ::
  "string \<Rightarrow> string \<Rightarrow> string \<Rightarrow> int \<Rightarrow> int \<Rightarrow> string \<Rightarrow> int \<Rightarrow> int \<Rightarrow> int \<Rightarrow> int \<Rightarrow> string \<Rightarrow>
   database \<Rightarrow> shown \<times> database" where
  "complete_donation now donor_name donor_email donor_age donor_id donor_phone donation_amount
       donation_day donation_month donation_year btype db =
     (if donor_name \<noteq> [] \<and> donor_email \<noteq> [] then
        (case add_blood now btype donation_amount db of
           Inl e \<Rightarrow> (Error_exception e, db)
         | Inr r \<Rightarrow>
             if fst r then
               (case append_donor
                   (donor_rec donor_name donor_email donor_age donor_id donor_phone
                      donation_amount btype donation_year donation_month donation_day) (snd r) of
                  Inl e \<Rightarrow> (Error_exception e, snd r)
                | Inr db2 \<Rightarrow>
                    (case get_amount (save db2) btype of
                       Inl e \<Rightarrow> (Error_exception e, save db2)
                     | Inr q \<Rightarrow> (Success q, save db2)))
             else (Error_inventory, snd r))
      else (Error_required_fields, db))"

text \<open>The handler of the button "Request Blood".\<close>

definition request_blood_clicked ::
  "string \<Rightarrow> string \<Rightarrow> string \<Rightarrow> string \<Rightarrow> int \<Rightarrow> int \<Rightarrow> string \<Rightarrow> string \<Rightarrow> int \<Rightarrow>
   database \<Rightarrow> shown \<times> database" where
  "request_blood_clicked now today patient_name patient_email patient_age patient_id
       patient_phone btype amount db =
     (if patient_name \<noteq> [] \<and> patient_email \<noteq> [] then
        (case remove_blood now btype amount db of
           Inl e \<Rightarrow> (Error_exception e, db)
         | Inr r \<Rightarrow>
             if fst r then
               (case append_patient
                   (patient_rec patient_name patient_email patient_age patient_id patient_phone
                      amount btype today) (snd r) of
                  Inl e \<Rightarrow> (Error_exception e, snd r)
                | Inr db2 \<Rightarrow>
                    (case get_amount (save db2) btype of
                       Inl e \<Rightarrow> (Error_exception e, save db2)
                     | Inr q \<Rightarrow> (Success q, save db2)))
             else
               (case get_amount (snd r) btype of
                  Inl e \<Rightarrow> (Error_exception e, snd r)
                | Inr q \<Rightarrow> (Error_insufficient q, snd r)))
      else (Error_required_fields, db))"

subsection \<open>Sequences of ledger operations\<close>

text \<open>A credit or a debit, with the clock reading its log entry gets.\<close>

datatype ledger_op = Credit string string int | Debit string string int

fun apply_op :: "ledger_op \<Rightarrow> database \<Rightarrow> error + database" where
  "apply_op (Credit now btype amount) db =
     and_then (add_blood now btype amount db) (\<lambda>r. Inr (snd r))"
| "apply_op (Debit now btype amount) db =
     and_then (remove_blood now btype amount db) (\<lambda>r. Inr (snd r))"

fun run :: "ledger_op list \<Rightarrow> database \<Rightarrow> error + database" where
  "run [] db = Inr db"
| "run (x # xs) db = and_then (apply_op x db) (run xs)"

text \<open>The inventory invariant of the data model: all eight keys, no negative quantity.\<close>

definition inventory_ok :: "database \<Rightarrow> bool" where
  "inventory_ok db =
     (case get_inventory db of
        Inl e \<Rightarrow> False
      | Inr invt \<Rightarrow> VALID_TYPES \<subseteq> fst ` set invt \<and> list_all (\<lambda>kv. 0 \<le> snd kv) invt)"

definition default_document :: document where
  "default_document =
     \<lparr>inventory = Some default_inventory, donors = Some [], patients = Some [], logs = Some []\<rparr>"

text \<open>The database of a first run: the defaulted document, saved.\<close>

definition db0 :: database where
  "db0 = \<lparr>data = JDict default_document, persisted = Present (Parsed (JDict default_document))\<rparr>"







text \<open>
  The document \<open>ensure_structure\<close> leaves behind, in closed form: a key that is
  present keeps its value, a missing one gets its default.
\<close>

definition fill_defaults :: "document \<Rightarrow> document" where
  "fill_defaults d =
     \<lparr>inventory = (case inventory d of None \<Rightarrow> Some default_inventory | Some x \<Rightarrow> Some x),
      donors = (case donors d of None \<Rightarrow> Some [] | Some x \<Rightarrow> Some x),
      patients = (case patients d of None \<Rightarrow> Some [] | Some x \<Rightarrow> Some x),
      logs = (case logs d of None \<Rightarrow> Some [] | Some x \<Rightarrow> Some x)\<rparr>"

section \<open>Properties\<close>

subsection \<open>What the two ledger operations compute\<close>

lemma and_then_simps [simp]:
  "and_then (Inl e) f = Inl e"
  "and_then (Inr x) f = f x"
  by (simp_all add: and_then_def)

lemma get_inventory_Inr:
  "get_inventory db = Inr invt \<longleftrightarrow> (\<exists>d. data db = JDict d \<and> inventory d = Some invt)"
  by (auto simp: get_inventory_def split: json.splits option.splits)

lemma add_blood_rejects:
  "btype \<notin> VALID_TYPES \<or> amount \<le> 0 \<Longrightarrow> add_blood now btype amount db = Inr (False, db)"
  by (simp add: add_blood_def)

lemma remove_blood_rejects:
  "btype \<notin> VALID_TYPES \<or> amount \<le> 0 \<Longrightarrow> remove_blood now btype amount db = Inr (False, db)"
  by (simp add: remove_blood_def)

lemma add_blood_raises:
  "btype \<in> VALID_TYPES \<Longrightarrow> 0 < amount \<Longrightarrow> get_inventory db = Inl e \<Longrightarrow>
   add_blood now btype amount db = Inl e"
  by (simp add: add_blood_def)

lemma remove_blood_raises:
  "btype \<in> VALID_TYPES \<Longrightarrow> 0 < amount \<Longrightarrow> get_inventory db = Inl e \<Longrightarrow>
   remove_blood now btype amount db = Inl e"
  by (simp add: remove_blood_def)

lemma add_blood_accepts:
  assumes "btype \<in> VALID_TYPES" "0 < amount" "data db = JDict d" "inventory d = Some invt"
  shows "add_blood now btype amount db =
     (let new = get0 invt btype + amount;
          d' = d\<lparr>inventory := Some (AList.update btype new invt),
                 logs := Some ((case logs d of None \<Rightarrow> [] | Some l \<Rightarrow> l) @
                   [now @ '' - '' @ ''Added '' @ str_int amount @ ''ml to '' @ btype @
                    '' (new: '' @ str_int new @ '' ml)''])\<rparr>
      in Inr (True, \<lparr>data = JDict d', persisted = Present (Parsed (JDict d'))\<rparr>))"
  using assms
  by (simp add: add_blood_def get_inventory_def set_amount_def save_def log_def Let_def)

lemma remove_blood_short:
  assumes "btype \<in> VALID_TYPES" "0 < amount" "data db = JDict d" "inventory d = Some invt"
    "get0 invt btype < amount"
  shows "remove_blood now btype amount db = Inr (False, db)"
  using assms by (simp add: remove_blood_def get_inventory_def Let_def)

lemma remove_blood_accepts:
  assumes "btype \<in> VALID_TYPES" "0 < amount" "data db = JDict d" "inventory d = Some invt"
    "amount \<le> get0 invt btype"
  shows "remove_blood now btype amount db =
     (let rest = get0 invt btype - amount;
          d' = d\<lparr>inventory := Some (AList.update btype rest invt),
                 logs := Some ((case logs d of None \<Rightarrow> [] | Some l \<Rightarrow> l) @
                   [now @ '' - '' @ ''Removed '' @ str_int amount @ ''ml from '' @ btype @
                    '' (remaining: '' @ str_int rest @ '' ml)''])\<rparr>
      in Inr (True, \<lparr>data = JDict d', persisted = Present (Parsed (JDict d'))\<rparr>))"
  using assms
  by (simp add: remove_blood_def get_inventory_def set_amount_def save_def log_def Let_def)

lemma get0_update: "get0 (AList.update k v al) k' = (if k' = k then v else get0 al k')"
  by (simp add: get0_def update_conv')

lemma add_blood_TrueD:
  assumes "add_blood now btype amount db = Inr (True, db')"
  shows "\<exists>d invt. btype \<in> VALID_TYPES \<and> 0 < amount \<and> data db = JDict d \<and> inventory d = Some invt"
proof -
  have v: "btype \<in> VALID_TYPES \<and> 0 < amount"
    using assms by (auto simp: add_blood_def split: if_splits)
  moreover have "\<exists>invt. get_inventory db = Inr invt"
    using assms v by (cases "get_inventory db") (auto simp: add_blood_def)
  ultimately show ?thesis by (auto simp: get_inventory_Inr)
qed

lemma remove_blood_TrueD:
  assumes "remove_blood now btype amount db = Inr (True, db')"
  shows "\<exists>d invt. btype \<in> VALID_TYPES \<and> 0 < amount \<and> data db = JDict d \<and>
           inventory d = Some invt \<and> amount \<le> get0 invt btype"
proof -
  have v: "btype \<in> VALID_TYPES \<and> 0 < amount"
    using assms by (auto simp: remove_blood_def split: if_splits)
  then obtain invt where i: "get_inventory db = Inr invt"
    using assms by (cases "get_inventory db") (auto simp: remove_blood_def)
  then have "amount \<le> get0 invt btype"
    using assms v by (auto simp: remove_blood_def Let_def split: if_splits)
  with v i show ?thesis by (auto simp: get_inventory_Inr)
qed

lemma add_blood_FalseD:
  "add_blood now btype amount db = Inr (False, db') \<Longrightarrow> db' = db"
  by (cases "get_inventory db")
     (auto simp: add_blood_def Let_def log_def save_def set_amount_def get_inventory_def
           split: if_splits json.splits option.splits)

lemma remove_blood_FalseD:
  "remove_blood now btype amount db = Inr (False, db') \<Longrightarrow> db' = db"
  by (cases "get_inventory db")
     (auto simp: remove_blood_def Let_def log_def save_def set_amount_def get_inventory_def
           split: if_splits json.splits option.splits)

lemma add_blood_True_dict:
  assumes "add_blood now btype amount db = Inr (True, db1)"
  shows "\<exists>d d1 invt1. data db = JDict d \<and> data db1 = JDict d1 \<and>
           donors d1 = donors d \<and> patients d1 = patients d \<and> inventory d1 = Some invt1"
proof -
  from add_blood_TrueD [OF assms] obtain d invt where
    h: "btype \<in> VALID_TYPES" "0 < amount" "data db = JDict d" "inventory d = Some invt"
    by blast
  from assms show ?thesis
    unfolding add_blood_accepts [OF h] by (auto simp: Let_def h)
qed

lemma remove_blood_True_dict:
  assumes "remove_blood now btype amount db = Inr (True, db1)"
  shows "\<exists>d d1 invt1. data db = JDict d \<and> data db1 = JDict d1 \<and>
           donors d1 = donors d \<and> patients d1 = patients d \<and> inventory d1 = Some invt1"
proof -
  from remove_blood_TrueD [OF assms] obtain d invt where
    h: "btype \<in> VALID_TYPES" "0 < amount" "data db = JDict d" "inventory d = Some invt"
       "amount \<le> get0 invt btype"
    by blast
  from assms show ?thesis
    unfolding remove_blood_accepts [OF h] by (auto simp: Let_def h)
qed

lemma add_blood_True_valid:
  "add_blood now btype amount db = Inr (True, db1) \<Longrightarrow> btype \<in> VALID_TYPES"
  by (auto dest: add_blood_TrueD)

lemma get0_default [simp]: "get0 default_inventory ''O-'' = 2000"
  by (simp add: get0_def default_inventory_def)

lemma db0_inventory: "get_inventory db0 = Inr default_inventory"
  by (simp add: get_inventory_def db0_def default_document_def)

lemma db0_dict:
  "data db0 = JDict default_document" "inventory default_document = Some default_inventory"
  by (simp_all add: db0_def default_document_def)

lemma valid_O_neg: "''O-'' \<in> VALID_TYPES"
  by (simp add: VALID_TYPES_def)

subsection \<open>What \<open>ensure_structure\<close> computes\<close>

lemma ensure_structure_dict:
  "ensure_structure \<lparr>data = JDict d, persisted = f\<rparr> =
     Inr \<lparr>data = JDict (fill_defaults d),
          persisted = (if fill_defaults d = d then f
                       else Present (Parsed (JDict (fill_defaults d))))\<rparr>"
proof -
  obtain i dn p l where d: "d = \<lparr>inventory = i, donors = dn, patients = p, logs = l\<rparr>"
    by (cases d) simp
  show ?thesis
    unfolding d
    by (cases i; cases dn; cases p; cases l)
       (simp_all add: ensure_structure_def ensure_key_def py_in_def has_key_def
          fill_defaults_def save_def)
qed

lemma fill_defaults_idem: "fill_defaults (fill_defaults d) = fill_defaults d"
  by (simp add: fill_defaults_def split: option.splits)

lemma fill_defaults_empty: "fill_defaults empty_document = default_document"
  by (simp add: fill_defaults_def empty_document_def default_document_def)

subsection \<open>The inventory invariant is kept\<close>

lemma nonneg_update:
  "list_all (\<lambda>kv. 0 \<le> snd kv) al \<Longrightarrow> (0::int) \<le> v \<Longrightarrow>
   list_all (\<lambda>kv. 0 \<le> snd kv) (AList.update k v al)"
  by (induction al) auto

lemma nonneg_get0:
  "list_all (\<lambda>kv. 0 \<le> snd kv) al \<Longrightarrow> (0::int) \<le> get0 al k"
  by (induction al) (auto simp: get0_def)

lemma inventory_ok_iff:
  "inventory_ok db \<longleftrightarrow>
     (\<exists>d invt. data db = JDict d \<and> inventory d = Some invt \<and>
        VALID_TYPES \<subseteq> fst ` set invt \<and> list_all (\<lambda>kv. 0 \<le> snd kv) invt)"
  by (auto simp: inventory_ok_def get_inventory_def split: json.splits option.splits sum.splits)

lemma add_blood_keeps_ok:
  assumes "inventory_ok db"
  shows "\<exists>ok db'. add_blood now btype amount db = Inr (ok, db') \<and> inventory_ok db'"
proof (cases "btype \<notin> VALID_TYPES \<or> amount \<le> 0")
  case True
  with assms show ?thesis by (auto simp: add_blood_rejects)
next
  case False
  from assms obtain d invt where
    d: "data db = JDict d" "inventory d = Some invt"
    and k: "VALID_TYPES \<subseteq> fst ` set invt" and n: "list_all (\<lambda>kv. 0 \<le> snd kv) invt"
    by (auto simp: inventory_ok_iff)
  from False have v: "btype \<in> VALID_TYPES" "0 < amount" by auto
  have "0 \<le> get0 invt btype + amount"
    using nonneg_get0 [OF n, of btype] v by simp
  then have "list_all (\<lambda>kv. 0 \<le> snd kv) (AList.update btype (get0 invt btype + amount) invt)"
    using n by (simp add: nonneg_update)
  moreover have "VALID_TYPES \<subseteq> fst ` set (AList.update btype (get0 invt btype + amount) invt)"
    using k by (auto simp: dom_update)
  ultimately show ?thesis
    unfolding add_blood_accepts [OF v d]
    by (auto simp: Let_def inventory_ok_iff)
qed

lemma remove_blood_keeps_ok:
  assumes "inventory_ok db"
  shows "\<exists>ok db'. remove_blood now btype amount db = Inr (ok, db') \<and> inventory_ok db'"
proof (cases "btype \<notin> VALID_TYPES \<or> amount \<le> 0")
  case True
  with assms show ?thesis by (auto simp: remove_blood_rejects)
next
  case False
  from assms obtain d invt where
    d: "data db = JDict d" "inventory d = Some invt"
    and k: "VALID_TYPES \<subseteq> fst ` set invt" and n: "list_all (\<lambda>kv. 0 \<le> snd kv) invt"
    by (auto simp: inventory_ok_iff)
  from False have v: "btype \<in> VALID_TYPES" "0 < amount" by auto
  show ?thesis
  proof (cases "amount \<le> get0 invt btype")
    case short: False
    then have "remove_blood now btype amount db = Inr (False, db)"
      using v d by (simp add: remove_blood_short)
    with assms show ?thesis by auto
  next
    case True
    then have "list_all (\<lambda>kv. 0 \<le> snd kv) (AList.update btype (get0 invt btype - amount) invt)"
      using n by (simp add: nonneg_update)
    moreover have "VALID_TYPES \<subseteq> fst ` set (AList.update btype (get0 invt btype - amount) invt)"
      using k by (auto simp: dom_update)
    ultimately show ?thesis
      unfolding remove_blood_accepts [OF v d True]
      by (auto simp: Let_def inventory_ok_iff)
  qed
qed

lemma apply_op_keeps_ok:
  "inventory_ok db \<Longrightarrow> \<exists>db'. apply_op x db = Inr db' \<and> inventory_ok db'"
proof (cases x)
  case (Credit now btype amount)
  assume "inventory_ok db"
  from add_blood_keeps_ok [OF this, of now btype amount] Credit show ?thesis by auto
next
  case (Debit now btype amount)
  assume "inventory_ok db"
  from remove_blood_keeps_ok [OF this, of now btype amount] Debit show ?thesis by auto
qed

lemma run_keeps_ok:
  "inventory_ok db \<Longrightarrow> \<exists>db'. run ops db = Inr db' \<and> inventory_ok db'"
proof (induction ops arbitrary: db)
  case Nil
  then show ?case by simp
next
  case (Cons x xs)
  from apply_op_keeps_ok [OF Cons.prems, of x] obtain db1 where
    s: "apply_op x db = Inr db1" "inventory_ok db1" by blast
  from Cons.IH [OF s(2)] s(1) show ?case by simp
qed

lemma db0_ok: "inventory_ok db0"
  by (simp add: inventory_ok_iff db0_def default_document_def default_inventory_def VALID_TYPES_def)

lemma fresh_is_db0:
  "ensure_structure \<lparr>data = JDict empty_document, persisted = f\<rparr> = Inr db0"
  by (simp add: ensure_structure_def ensure_key_def py_in_def has_key_def empty_document_def
      save_def db0_def default_document_def)

subsection \<open>Rejected input\<close>

text \<open>
  Claim C3. For a blood-type code outside the eight valid codes, and for an amount
  that is zero or negative, \<open>add_blood\<close> and \<open>remove_blood\<close> both return \<open>False\<close>
  and leave the whole database as it was: the document with its inventory, donors,
  patients and logs, and the persisted file.
\<close>

theorem invalid_input_rejected:
  "btype \<notin> VALID_TYPES \<or> amount \<le> 0 \<Longrightarrow>
   add_blood now btype amount db = Inr (False, db) \<and>
   remove_blood now' btype amount db = Inr (False, db)"
  by (simp add: add_blood_rejects remove_blood_rejects)

theorem invalid_input_rejected_witness:
  "add_blood ''2025-01-01 10:00:00'' ''XX'' 100 db0 = Inr (False, db0) \<and>
   remove_blood ''2025-01-01 10:00:05'' ''XX'' 100 db0 = Inr (False, db0) \<and>
   add_blood ''2025-01-01 10:00:00'' ''O-'' 0 db0 = Inr (False, db0) \<and>
   remove_blood ''2025-01-01 10:00:05'' ''O-'' 0 db0 = Inr (False, db0)"
proof -
  have a: "''XX'' \<notin> VALID_TYPES \<or> (100::int) \<le> 0" by (simp add: VALID_TYPES_def)
  have b: "''O-'' \<notin> VALID_TYPES \<or> (0::int) \<le> 0" by simp
  show ?thesis
    using invalid_input_rejected [OF a, of "''2025-01-01 10:00:00''" db0 "''2025-01-01 10:00:05''"]
      invalid_input_rejected [OF b, of "''2025-01-01 10:00:00''" db0 "''2025-01-01 10:00:05''"]
    by simp
qed

subsection \<open>When a debit succeeds\<close>

text \<open>
  Claim C2 as stated fails: a debit of amount 0 from the fresh database is refused,
  although 0 is at most the 2000 ml in stock.
\<close>

theorem debit_zero_counterexample:
  "get_amount db0 ''O-'' = Inr 2000 \<and> (0::int) \<le> 2000 \<and>
   remove_blood ''2025-01-01 10:00:00'' ''O-'' 0 db0 = Inr (False, db0)"
  by (simp add: get_amount_def get_inventory_def db0_def default_document_def get0_def
      default_inventory_def remove_blood_def)

text \<open>
  Claim C2, amended. On a document that has an inventory, \<open>remove_blood\<close> returns
  \<open>True\<close> exactly when the type is one of the eight codes, the amount is positive and
  the amount is at most the current quantity of the type. On success the quantity
  goes down by exactly the amount; otherwise the database is unchanged.
\<close>

theorem debit_iff_sufficient:
  assumes "get_inventory db = Inr invt"
  shows "\<exists>ok db'. remove_blood now btype amount db = Inr (ok, db') \<and>
     (ok \<longleftrightarrow> btype \<in> VALID_TYPES \<and> 0 < amount \<and> amount \<le> get0 invt btype) \<and>
     get_amount db' btype =
       Inr (if ok then get0 invt btype - amount else get0 invt btype) \<and>
     (\<not> ok \<longrightarrow> db' = db)"
proof -
  from assms obtain d where d: "data db = JDict d" "inventory d = Some invt"
    by (auto simp: get_inventory_Inr)
  have cur: "get_amount db btype = Inr (get0 invt btype)"
    using assms by (simp add: get_amount_def)
  show ?thesis
  proof (cases "btype \<notin> VALID_TYPES \<or> amount \<le> 0")
    case True
    then have "remove_blood now btype amount db = Inr (False, db)"
      by (rule remove_blood_rejects)
    with True cur show ?thesis by auto
  next
    case valid: False
    show ?thesis
    proof (cases "amount \<le> get0 invt btype")
      case True
      with valid d show ?thesis
        by (auto simp: remove_blood_accepts Let_def get_amount_def get_inventory_def get0_update)
    next
      case False
      with valid d have "remove_blood now btype amount db = Inr (False, db)"
        by (simp add: remove_blood_short)
      with False valid cur show ?thesis by auto
    qed
  qed
qed

theorem debit_iff_sufficient_witness:
  "get_inventory db0 = Inr default_inventory \<and>
   remove_blood ''2025-01-01 10:00:00'' ''O-'' 2500 db0 = Inr (False, db0) \<and>
   (\<exists>db'. remove_blood ''2025-01-01 10:00:00'' ''O-'' 2000 db0 = Inr (True, db') \<and>
          get_amount db' ''O-'' = Inr 0)"
  using debit_iff_sufficient [OF db0_inventory, of "''2025-01-01 10:00:00''" "''O-''" 2500]
    debit_iff_sufficient [OF db0_inventory, of "''2025-01-01 10:00:00''" "''O-''" 2000]
  by (auto simp: db0_inventory VALID_TYPES_def)

subsection \<open>Log entries\<close>

text \<open>
  Claim C7. A successful \<open>add_blood\<close> appends exactly one entry to the logs, of the
  shape \<open>now - Added amount ml to btype (new: total ml)\<close>, where \<open>total\<close> is the quantity
  after the credit; a successful \<open>remove_blood\<close> appends exactly one entry of the
  shape \<open>now - Removed amount ml from btype (remaining: total ml)\<close>; a credit or debit
  that returns \<open>False\<close> leaves the logs as they were.
\<close>

theorem ledger_log_entries:
  "(add_blood now btype amount db = Inr (True, db') \<longrightarrow>
      (\<exists>ls total. get_logs db = Inr ls \<and> get_amount db' btype = Inr total \<and>
         get_logs db' = Inr (ls @ [now @ '' - Added '' @ str_int amount @ ''ml to '' @ btype @
                                   '' (new: '' @ str_int total @ '' ml)'']))) \<and>
   (remove_blood now btype amount db = Inr (True, db') \<longrightarrow>
      (\<exists>ls total. get_logs db = Inr ls \<and> get_amount db' btype = Inr total \<and>
         get_logs db' = Inr (ls @ [now @ '' - Removed '' @ str_int amount @ ''ml from '' @ btype @
                                   '' (remaining: '' @ str_int total @ '' ml)'']))) \<and>
   (add_blood now btype amount db = Inr (False, db') \<longrightarrow> get_logs db' = get_logs db) \<and>
   (remove_blood now btype amount db = Inr (False, db') \<longrightarrow> get_logs db' = get_logs db)"
proof (intro conjI impI)
  assume a: "add_blood now btype amount db = Inr (True, db')"
  from add_blood_TrueD [OF a] obtain d invt where
    h: "btype \<in> VALID_TYPES" "0 < amount" "data db = JDict d" "inventory d = Some invt"
    by blast
  from a show "\<exists>ls total. get_logs db = Inr ls \<and> get_amount db' btype = Inr total \<and>
         get_logs db' = Inr (ls @ [now @ '' - Added '' @ str_int amount @ ''ml to '' @ btype @
                                   '' (new: '' @ str_int total @ '' ml)''])"
    unfolding add_blood_accepts [OF h]
    by (auto simp: Let_def get_logs_def get_amount_def get_inventory_def get0_update h)
next
  assume a: "remove_blood now btype amount db = Inr (True, db')"
  from remove_blood_TrueD [OF a] obtain d invt where
    h: "btype \<in> VALID_TYPES" "0 < amount" "data db = JDict d" "inventory d = Some invt"
       "amount \<le> get0 invt btype"
    by blast
  from a show "\<exists>ls total. get_logs db = Inr ls \<and> get_amount db' btype = Inr total \<and>
         get_logs db' = Inr (ls @ [now @ '' - Removed '' @ str_int amount @ ''ml from '' @ btype @
                                   '' (remaining: '' @ str_int total @ '' ml)''])"
    unfolding remove_blood_accepts [OF h]
    by (auto simp: Let_def get_logs_def get_amount_def get_inventory_def get0_update h)
next
  assume "add_blood now btype amount db = Inr (False, db')"
  then show "get_logs db' = get_logs db" by (auto dest: add_blood_FalseD)
next
  assume "remove_blood now btype amount db = Inr (False, db')"
  then show "get_logs db' = get_logs db" by (auto dest: remove_blood_FalseD)
qed

theorem ledger_log_entries_witness:
  "(\<exists>db'. add_blood ''2025-01-01 10:00:00'' ''O-'' 100 db0 = Inr (True, db') \<and>
     get_logs db' = Inr [''2025-01-01 10:00:00 - Added 100ml to O- (new: 2100 ml)'']) \<and>
   (\<exists>db'. remove_blood ''2025-01-01 10:00:00'' ''O-'' 2000 db0 = Inr (True, db') \<and>
     get_logs db' = Inr [''2025-01-01 10:00:00 - Removed 2000ml from O- (remaining: 0 ml)''])"
proof -
  have h: "''O-'' \<in> VALID_TYPES" "(0::int) < 100" "data db0 = JDict default_document"
    "inventory default_document = Some default_inventory"
    by (simp_all add: VALID_TYPES_def db0_def default_document_def)
  have h': "''O-'' \<in> VALID_TYPES" "(0::int) < 2000" "data db0 = JDict default_document"
    "inventory default_document = Some default_inventory"
    "(2000::int) \<le> get0 default_inventory ''O-''"
    by (simp_all add: VALID_TYPES_def db0_def default_document_def)
  obtain db' where a: "add_blood ''2025-01-01 10:00:00'' ''O-'' 100 db0 = Inr (True, db')"
    using add_blood_accepts [OF h] by (simp add: Let_def)
  obtain db'' where r: "remove_blood ''2025-01-01 10:00:00'' ''O-'' 2000 db0 = Inr (True, db'')"
    using remove_blood_accepts [OF h'] by (simp add: Let_def)
  have amt: "get_amount db' ''O-'' = Inr 2100"
    using a unfolding add_blood_accepts [OF h]
    by (auto simp: Let_def get_amount_def get_inventory_def get0_update)
  have amt': "get_amount db'' ''O-'' = Inr 0"
    using r unfolding remove_blood_accepts [OF h']
    by (auto simp: Let_def get_amount_def get_inventory_def get0_update)
  have l0: "get_logs db0 = Inr []"
    by (simp add: get_logs_def db0_def default_document_def)
  have s: "str_int 100 = ''100''" "str_int 2100 = ''2100''" "str_int 2000 = ''2000''"
    "str_int 0 = ''0''"
    by code_simp+
  from ledger_log_entries [of "''2025-01-01 10:00:00''" "''O-''" 100 db0 db']
    ledger_log_entries [of "''2025-01-01 10:00:00''" "''O-''" 2000 db0 db''] a r amt amt' l0
  show ?thesis by (auto simp: s)
qed

subsection \<open>Frame\<close>

text \<open>
  Claim C10. \<open>add_blood\<close> and \<open>remove_blood\<close> change at most the inventory entry of
  the given type and append at most to the logs: the donors, the patients and the
  entries of every other type are the same after the call.
\<close>

theorem ledger_frame:
  assumes "add_blood now btype amount db = Inr (ok, db') \<or>
           remove_blood now btype amount db = Inr (ok, db')"
  shows "if ok then
           \<exists>d d' invt invt' ls e.
             data db = JDict d \<and> data db' = JDict d' \<and>
             donors d' = donors d \<and> patients d' = patients d \<and>
             inventory d = Some invt \<and> inventory d' = Some invt' \<and>
             (\<forall>k. k \<noteq> btype \<longrightarrow> map_of invt' k = map_of invt k) \<and>
             get_logs db = Inr ls \<and> get_logs db' = Inr (ls @ [e])
         else db' = db"
proof (cases ok)
  case False
  with assms show ?thesis by (auto dest: add_blood_FalseD remove_blood_FalseD)
next
  case True
  from assms show ?thesis
  proof
    assume a: "add_blood now btype amount db = Inr (ok, db')"
    from a True have a': "add_blood now btype amount db = Inr (True, db')" by simp
    from add_blood_TrueD [OF a'] obtain d invt where
      h: "btype \<in> VALID_TYPES" "0 < amount" "data db = JDict d" "inventory d = Some invt"
      by blast
    from a True show ?thesis
      unfolding add_blood_accepts [OF h]
      by (auto simp: Let_def get_logs_def update_conv' h)
  next
    assume a: "remove_blood now btype amount db = Inr (ok, db')"
    from a True have a': "remove_blood now btype amount db = Inr (True, db')" by simp
    from remove_blood_TrueD [OF a'] obtain d invt where
      h: "btype \<in> VALID_TYPES" "0 < amount" "data db = JDict d" "inventory d = Some invt"
         "amount \<le> get0 invt btype"
      by blast
    from a True show ?thesis
      unfolding remove_blood_accepts [OF h]
      by (auto simp: Let_def get_logs_def update_conv' h)
  qed
qed

theorem ledger_frame_witness:
  "\<exists>db'. add_blood ''2025-01-01 10:00:00'' ''O-'' 100 db0 = Inr (True, db') \<and>
     get_donors db' = Inr [] \<and> get_patients db' = Inr [] \<and> get_amount db' ''A+'' = Inr 2000"
proof -
  have p: "(0::int) < 100" by simp
  obtain db' where a: "add_blood ''2025-01-01 10:00:00'' ''O-'' 100 db0 = Inr (True, db')"
    using add_blood_accepts [OF valid_O_neg p db0_dict] by (simp add: Let_def)
  have "map_of default_inventory ''A+'' = Some 2000"
    by (simp add: default_inventory_def)
  with ledger_frame [OF disjI1, OF a] a show ?thesis
    by (auto simp: db0_dict get_donors_def get_patients_def get_amount_def get_inventory_def
        get0_def default_document_def)
qed

subsection \<open>Credit, then debit\<close>




subsection \<open>Defaulting\<close>

text \<open>
  Claim C5. \<open>ensure_structure\<close> on the empty document gives the document with all
  eight codes at 2000 ml and empty donors, patients and logs. On any document it
  fills exactly the missing top-level keys with their defaults, keeps the value of
  every key that is present, and running it again changes nothing.
\<close>

theorem ensure_structure_defaults:
  "ensure_structure \<lparr>data = JDict empty_document, persisted = f\<rparr> =
     Inr \<lparr>data = JDict default_document, persisted = Present (Parsed (JDict default_document))\<rparr> \<and>
   (\<exists>d' f'. ensure_structure \<lparr>data = JDict d, persisted = f\<rparr> =
        Inr \<lparr>data = JDict d', persisted = f'\<rparr> \<and>
      inventory d' = (case inventory d of None \<Rightarrow> Some default_inventory | Some x \<Rightarrow> Some x) \<and>
      donors d' = (case donors d of None \<Rightarrow> Some [] | Some x \<Rightarrow> Some x) \<and>
      patients d' = (case patients d of None \<Rightarrow> Some [] | Some x \<Rightarrow> Some x) \<and>
      logs d' = (case logs d of None \<Rightarrow> Some [] | Some x \<Rightarrow> Some x) \<and>
      ensure_structure \<lparr>data = JDict d', persisted = f'\<rparr> =
        Inr \<lparr>data = JDict d', persisted = f'\<rparr>)"
proof
  have "fill_defaults empty_document \<noteq> empty_document"
    by (simp add: fill_defaults_def empty_document_def)
  then show "ensure_structure \<lparr>data = JDict empty_document, persisted = f\<rparr> =
     Inr \<lparr>data = JDict default_document, persisted = Present (Parsed (JDict default_document))\<rparr>"
    by (simp add: ensure_structure_dict fill_defaults_empty)
next
  show "\<exists>d' f'. ensure_structure \<lparr>data = JDict d, persisted = f\<rparr> =
        Inr \<lparr>data = JDict d', persisted = f'\<rparr> \<and>
      inventory d' = (case inventory d of None \<Rightarrow> Some default_inventory | Some x \<Rightarrow> Some x) \<and>
      donors d' = (case donors d of None \<Rightarrow> Some [] | Some x \<Rightarrow> Some x) \<and>
      patients d' = (case patients d of None \<Rightarrow> Some [] | Some x \<Rightarrow> Some x) \<and>
      logs d' = (case logs d of None \<Rightarrow> Some [] | Some x \<Rightarrow> Some x) \<and>
      ensure_structure \<lparr>data = JDict d', persisted = f'\<rparr> =
        Inr \<lparr>data = JDict d', persisted = f'\<rparr>"
    unfolding ensure_structure_dict
    by (intro exI [of _ "fill_defaults d"] exI conjI refl)
       (simp_all add: fill_defaults_idem, simp_all add: fill_defaults_def)
qed

theorem ensure_structure_defaults_witness:
  "\<exists>d' f'. ensure_structure
       \<lparr>data = JDict (empty_document\<lparr>logs := Some [''kept'']\<rparr>), persisted = Absent\<rparr> =
         Inr \<lparr>data = JDict d', persisted = f'\<rparr> \<and>
      inventory d' = Some default_inventory \<and> donors d' = Some [] \<and> patients d' = Some [] \<and>
      logs d' = Some [''kept'']"
  using ensure_structure_defaults [of Absent "empty_document\<lparr>logs := Some [''kept'']\<rparr>"]
  by (auto simp: empty_document_def)

subsection \<open>Loading\<close>




subsection \<open>No negative stock\<close>

text \<open>
  Claim C4. From the freshly defaulted document, every sequence of credits and
  debits, with any types and amounts, runs without an exception and ends in a
  state whose inventory has all eight codes and no negative quantity.
\<close>

theorem stock_never_negative:
  "\<exists>fresh db' invt.
     ensure_structure \<lparr>data = JDict empty_document, persisted = f\<rparr> = Inr fresh \<and>
     run ops fresh = Inr db' \<and> get_inventory db' = Inr invt \<and>
     VALID_TYPES \<subseteq> fst ` set invt \<and> (\<forall>kv \<in> set invt. 0 \<le> snd kv)"
  using run_keeps_ok [OF db0_ok, of ops]
  by (auto simp: fresh_is_db0 inventory_ok_iff get_inventory_Inr list_all_iff)

theorem stock_never_negative_witness:
  "\<exists>db' invt.
     run [Credit ''2025-01-01 10:00:00'' ''A+'' 5, Debit ''2025-01-01 10:00:01'' ''B-'' 2001,
          Debit ''2025-01-01 10:00:02'' ''B-'' 2000, Credit ''2025-01-01 10:00:03'' ''XX'' 7] db0
       = Inr db' \<and>
     get_inventory db' = Inr invt \<and>
     VALID_TYPES \<subseteq> fst ` set invt \<and> (\<forall>kv \<in> set invt. 0 \<le> snd kv)"
  using stock_never_negative [of Absent
      "[Credit ''2025-01-01 10:00:00'' ''A+'' 5, Debit ''2025-01-01 10:00:01'' ''B-'' 2001,
        Debit ''2025-01-01 10:00:02'' ''B-'' 2000, Credit ''2025-01-01 10:00:03'' ''XX'' 7]"]
  by (simp add: fresh_is_db0)

subsection \<open>Transaction records\<close>

text \<open>
  Claim C1. In the donation flow, of the console program and of the form-based one,
  a donation record is appended to the donors exactly when the \<open>add_blood\<close> call
  returned \<open>True\<close>; in the request flow a request record is appended to the patients
  exactly when the \<open>remove_blood\<close> call returned \<open>True\<close>. When no record is appended
  the database is unchanged, and when one is, the inventory is the one the
  successful call produced.
\<close>

theorem record_iff_ledger_success:
  "(add_blood now bt (donated_amount donor) db = Inr (ok, db1) \<longrightarrow>
      (\<exists>db'. donate now bt donor db = Inr (ok, db') \<and>
         (if ok then
            \<exists>xs. get_donors db = Inr xs \<and>
              get_donors db' = Inr (xs @ [donor_rec (name donor) (email donor) (age donor)
                 (id' donor) (Donor.phone donor) (donated_amount donor) bt
                 (year donor) (month donor) (day donor)]) \<and>
              get_patients db' = get_patients db \<and> get_inventory db' = get_inventory db1
          else db' = db))) \<and>
   (remove_blood now (Patient.blood_type patient) (required_amount patient) db = Inr (ok, db1) \<longrightarrow>
      (\<exists>db'. request_blood now today patient db = Inr (ok, db') \<and>
         (if ok then
            \<exists>xs. get_patients db = Inr xs \<and>
              get_patients db' = Inr (xs @ [patient_rec (name patient) (email patient)
                 (age patient) (id' patient) (Patient.phone patient) (required_amount patient)
                 (Patient.blood_type patient) today]) \<and>
              get_donors db' = get_donors db \<and> get_inventory db' = get_inventory db1
          else db' = db))) \<and>
   (\<exists>msg db'.
      complete_donation now nm em ag idn ph amount dd dm dy btype db = (msg, db') \<and>
      (if nm \<noteq> [] \<and> em \<noteq> [] \<and> (\<exists>db1. add_blood now btype amount db = Inr (True, db1)) then
         (\<exists>q. msg = Success q) \<and>
         (\<exists>xs db1. add_blood now btype amount db = Inr (True, db1) \<and> get_donors db = Inr xs \<and>
            get_donors db' = Inr (xs @ [donor_rec nm em ag idn ph amount btype dy dm dd]) \<and>
            get_patients db' = get_patients db \<and> get_inventory db' = get_inventory db1)
       else (\<forall>q. msg \<noteq> Success q) \<and> db' = db)) \<and>
   (\<exists>msg db'.
      request_blood_clicked now today nm em ag idn ph btype amount db = (msg, db') \<and>
      (if nm \<noteq> [] \<and> em \<noteq> [] \<and> (\<exists>db1. remove_blood now btype amount db = Inr (True, db1)) then
         (\<exists>q. msg = Success q) \<and>
         (\<exists>xs db1. remove_blood now btype amount db = Inr (True, db1) \<and> get_patients db = Inr xs \<and>
            get_patients db' = Inr (xs @ [patient_rec nm em ag idn ph amount btype today]) \<and>
            get_donors db' = get_donors db \<and> get_inventory db' = get_inventory db1)
       else (\<forall>q. msg \<noteq> Success q) \<and> db' = db))"
  (is "?cli_donor \<and> ?cli_patient \<and> ?form_donor \<and> ?form_patient")
proof (intro conjI)
  show ?cli_donor
  proof
    assume a: "add_blood now bt (donated_amount donor) db = Inr (ok, db1)"
    show "\<exists>db'. donate now bt donor db = Inr (ok, db') \<and>
         (if ok then
            \<exists>xs. get_donors db = Inr xs \<and>
              get_donors db' = Inr (xs @ [donor_rec (name donor) (email donor) (age donor)
                 (id' donor) (Donor.phone donor) (donated_amount donor) bt
                 (year donor) (month donor) (day donor)]) \<and>
              get_patients db' = get_patients db \<and> get_inventory db' = get_inventory db1
          else db' = db)"
    proof (cases ok)
      case True
      with a have a': "add_blood now bt (donated_amount donor) db = Inr (True, db1)" by simp
      from add_blood_True_dict [OF a'] obtain d d1 invt1 where
        "data db = JDict d" "data db1 = JDict d1" "donors d1 = donors d" "patients d1 = patients d"
        "inventory d1 = Some invt1"
        by blast
      with a' True add_blood_True_valid [OF a'] show ?thesis
        by (simp add: donate_def append_donor_def save_def get_donors_def get_patients_def
            get_inventory_def)
    next
      case False
      with a have "db1 = db" by (auto dest: add_blood_FalseD)
      with a False show ?thesis by (simp add: donate_def)
    qed
  qed
next
  show ?cli_patient
  proof
    assume a: "remove_blood now (Patient.blood_type patient) (required_amount patient) db = Inr (ok, db1)"
    show "\<exists>db'. request_blood now today patient db = Inr (ok, db') \<and>
         (if ok then
            \<exists>xs. get_patients db = Inr xs \<and>
              get_patients db' = Inr (xs @ [patient_rec (name patient) (email patient)
                 (age patient) (id' patient) (Patient.phone patient) (required_amount patient)
                 (Patient.blood_type patient) today]) \<and>
              get_donors db' = get_donors db \<and> get_inventory db' = get_inventory db1
          else db' = db)"
    proof (cases ok)
      case True
      with a have a': "remove_blood now (Patient.blood_type patient) (required_amount patient) db
          = Inr (True, db1)" by simp
      from remove_blood_True_dict [OF a'] obtain d d1 invt1 where
        "data db = JDict d" "data db1 = JDict d1" "donors d1 = donors d" "patients d1 = patients d"
        "inventory d1 = Some invt1"
        by blast
      with a' True show ?thesis
        by (simp add: request_blood_def append_patient_def save_def get_donors_def
            get_patients_def get_inventory_def Let_def)
    next
      case False
      with a have "db1 = db" by (auto dest: remove_blood_FalseD)
      with a False show ?thesis by (simp add: request_blood_def Let_def)
    qed
  qed
next
  show ?form_donor
  proof (cases "nm \<noteq> [] \<and> em \<noteq> []")
    case False
    then show ?thesis by (auto simp: complete_donation_def)
  next
    case filled: True
    show ?thesis
    proof (cases "add_blood now btype amount db")
      case (Inl e)
      with filled show ?thesis by (simp add: complete_donation_def)
    next
      case (Inr r)
      obtain c db1 where r: "r = (c, db1)" by (cases r)
      show ?thesis
      proof (cases c)
        case True
        with Inr r have a': "add_blood now btype amount db = Inr (True, db1)" by simp
        from add_blood_True_dict [OF a'] obtain d d1 invt1 where
          "data db = JDict d" "data db1 = JDict d1" "donors d1 = donors d" "patients d1 = patients d"
          "inventory d1 = Some invt1"
          by blast
        with a' filled show ?thesis
          by (simp add: complete_donation_def append_donor_def save_def get_donors_def
              get_patients_def get_inventory_def get_amount_def)
      next
        case False
        with Inr r have "db1 = db" by (auto dest: add_blood_FalseD)
        with Inr r False filled show ?thesis by (simp add: complete_donation_def)
      qed
    qed
  qed
next
  show ?form_patient
  proof (cases "nm \<noteq> [] \<and> em \<noteq> []")
    case False
    then show ?thesis by (auto simp: request_blood_clicked_def)
  next
    case filled: True
    show ?thesis
    proof (cases "remove_blood now btype amount db")
      case (Inl e)
      with filled show ?thesis by (simp add: request_blood_clicked_def)
    next
      case (Inr r)
      obtain c db1 where r: "r = (c, db1)" by (cases r)
      show ?thesis
      proof (cases c)
        case True
        with Inr r have a': "remove_blood now btype amount db = Inr (True, db1)" by simp
        from remove_blood_True_dict [OF a'] obtain d d1 invt1 where
          "data db = JDict d" "data db1 = JDict d1" "donors d1 = donors d" "patients d1 = patients d"
          "inventory d1 = Some invt1"
          by blast
        with a' filled show ?thesis
          by (simp add: request_blood_clicked_def append_patient_def save_def get_donors_def
              get_patients_def get_inventory_def get_amount_def)
      next
        case False
        with Inr r have "db1 = db" by (auto dest: remove_blood_FalseD)
        with Inr r False filled show ?thesis
          by (simp add: request_blood_clicked_def split: sum.splits)
      qed
    qed
  qed
qed

theorem record_iff_ledger_success_witness:
  "(\<exists>db'. donate ''2025-01-01 10:00:00'' ''O-''
        \<lparr>name = ''Ann'', email = ''ann@example.org'', age = 30, id' = 7, Donor.phone = ''555'',
         day = 1, month = 2, year = 2025, Donor.blood_type = [], donated_amount = 100\<rparr> db0
      = Inr (True, db') \<and>
      get_donors db' = Inr [donor_rec ''Ann'' ''ann@example.org'' 30 7 ''555'' 100 ''O-'' 2025 2 1])
   \<and>
   request_blood ''2025-01-01 10:00:00'' ''2025-01-01''
        \<lparr>name = ''Bob'', email = ''bob@example.org'', age = 40, id' = 8, Patient.phone = ''556'',
         Patient.blood_type = ''O-'', required_amount = 2500\<rparr> db0
      = Inr (False, db0)"
proof -
  define ann where "ann =
    \<lparr>name = ''Ann'', email = ''ann@example.org'', age = 30, id' = 7, Donor.phone = ''555'',
     day = 1, month = 2, year = 2025, Donor.blood_type = [], donated_amount = 100\<rparr>"
  define bob where "bob =
    \<lparr>name = ''Bob'', email = ''bob@example.org'', age = 40, id' = 8, Patient.phone = ''556'',
     Patient.blood_type = ''O-'', required_amount = 2500\<rparr>"
  have p: "(0::int) < donated_amount ann" and p': "(0::int) < required_amount bob"
    by (simp_all add: ann_def bob_def)
  obtain db1 where
    a: "add_blood ''2025-01-01 10:00:00'' ''O-'' (donated_amount ann) db0 = Inr (True, db1)"
    using add_blood_accepts [OF valid_O_neg p db0_dict] by (simp add: Let_def)
  have "remove_blood ''2025-01-01 10:00:00'' ''O-'' (required_amount bob) db0 = Inr (False, db0)"
    by (rule remove_blood_short [OF valid_O_neg p' db0_dict]) (simp add: bob_def)
  then have r: "remove_blood ''2025-01-01 10:00:00'' (Patient.blood_type bob) (required_amount bob)
      db0 = Inr (False, db0)"
    by (simp add: bob_def)
  have d0: "get_donors db0 = Inr []"
    by (simp add: get_donors_def db0_def default_document_def)
  from record_iff_ledger_success [THEN conjunct1, rule_format, OF a]
    record_iff_ledger_success [THEN conjunct2, THEN conjunct1, rule_format, OF r,
      of "''2025-01-01''"] d0
  show ?thesis by (auto simp: ann_def bob_def)
qed

end
